theory Spec2Isabelle
  imports Complex_Main "HOL-Library.Multiset" "HOL-Library.Sublist"
begin

section \<open>Browsing history (App.js)\<close>

text \<open>
  The browsing history is the React state \<open>browsingHistory\<close>, an array of product IDs that
  starts as \<open>[]\<close>. Product IDs are compared with \<open>!==\<close>; the model keeps the type of IDs
  abstract and reads \<open>!==\<close> as inequality on it, which is what strict inequality is on the
  strings and (non-NaN) numbers a product record carries.

  \<^verbatim>\<open>
  const handleProductClick = useCallback((productId) => {
    setBrowsingHistory(prevHistory => {
      const filteredHistory = prevHistory.filter(id => id !== productId);
      return [productId, ...filteredHistory].slice(0, 50);
    });
  }, []);
  \<close>
  The state updater is a pure function of the previous history; \<open>slice(0, 50)\<close> on an
  array is \<open>take 50\<close>.
\<close>

definition handleProductClick :: "'id \<Rightarrow> 'id list \<Rightarrow> 'id list" where
  "handleProductClick productId prevHistory =
     (let filteredHistory = filter (\<lambda>id. id \<noteq> productId) prevHistory
      in take 50 (productId # filteredHistory))"

text \<open>
  \<^verbatim>\<open>
  const handleClearHistory = useCallback(() => { setBrowsingHistory([]); }, []);
  \<close>
\<close>

definition handleClearHistory :: "'id list \<Rightarrow> 'id list" where
  "handleClearHistory prevHistory = []"

text \<open>
  The two handlers are the only callers of \<open>setBrowsingHistory\<close>. A session is a sequence of
  such events applied to the initial state \<open>[]\<close>.
\<close>

datatype 'id history_event = ProductClick 'id | ClearHistory

fun history_step :: "'id list \<Rightarrow> 'id history_event \<Rightarrow> 'id list" where
  "history_step h (ProductClick productId) = handleProductClick productId h"
| "history_step h ClearHistory = handleClearHistory h"

definition history_after :: "'id history_event list \<Rightarrow> 'id list" where
  "history_after events = foldl history_step [] events"


section \<open>Runtime functions the components rely on\<close>

text \<open>
  The components call string functions of the JavaScript runtime whose results depend on
  Unicode tables and on the locale. They are parameters of the model, so every theorem
  below holds for whatever the runtime computes.
\<close>

record runtime =
  toLowerCase :: "string \<Rightarrow> string"
  trim :: "string \<Rightarrow> string"
  localeCompare :: "string \<Rightarrow> string \<Rightarrow> real"

text \<open>\<open>s.includes(q)\<close>: \<open>q\<close> occurs in \<open>s\<close> as a contiguous substring.\<close>

definition String_includes :: "string \<Rightarrow> string \<Rightarrow> bool" where
  "String_includes s q = sublist q s"

text \<open>
  \<open>Array.prototype.sort(compareFn)\<close> is stable, and for a consistent comparator the result
  is the unique stable arrangement in which no element is followed by one the comparator
  puts strictly before it. Insertion from the right, placing an element in front of the
  first one it does not exceed, computes that arrangement. Every comparator in these
  components is the difference of a numeric key (or \<open>localeCompare\<close>).
\<close>

fun insert_sorted :: "('a \<Rightarrow> 'a \<Rightarrow> real) \<Rightarrow> 'a \<Rightarrow> 'a list \<Rightarrow> 'a list" where
  "insert_sorted cmp x [] = [x]"
| "insert_sorted cmp x (y # ys) =
     (if cmp x y \<le> 0 then x # y # ys else y # insert_sorted cmp x ys)"

fun Array_sort :: "('a \<Rightarrow> 'a \<Rightarrow> real) \<Rightarrow> 'a list \<Rightarrow> 'a list" where
  "Array_sort cmp [] = []"
| "Array_sort cmp (x # xs) = insert_sorted cmp x (Array_sort cmp xs)"

text \<open>
  \<open>x || 0\<close> on an optional number: \<open>undefined\<close>, \<open>null\<close> and \<open>0\<close> are falsy and give \<open>0\<close>,
  any other number gives itself.
\<close>

definition or_zero :: "real option \<Rightarrow> real" where
  "or_zero x = (case x of None \<Rightarrow> 0 | Some r \<Rightarrow> if r = 0 then 0 else r)"


section \<open>Catalog (components/Catalog.js)\<close>

text \<open>
  A product as the components read it. \<open>rating\<close>, \<open>inventory\<close>, \<open>tags\<close> and \<open>features\<close> are
  guarded in the source (\<open>||\<close>, \<open>?.\<close>, \<open>&&\<close>) and therefore optional; the other fields are
  read unguarded. Prices and ratings are numbers parsed from JSON; only their order and
  the sign of their differences are used, which are those of the reals they denote.
\<close>

record 'id product =
  id' :: 'id
  name :: string
  description :: string
  price :: real
  category :: string
  brand :: string
  rating :: "real option"
  inventory :: "real option"
  tags :: "string list option"
  features :: "string list option"

record priceRange =
  min' :: real
  max' :: real

record filters =
  category :: string
  priceRange :: priceRange
  sortBy :: string
  searchQuery :: string

text \<open>
  \<^verbatim>\<open>
  filtered.sort((a, b) => {
    switch (filters.sortBy) {
      case 'price-low':  return a.price - b.price;
      case 'price-high': return b.price - a.price;
      case 'rating':     return (b.rating || 0) - (a.rating || 0);
      case 'name':       return a.name.localeCompare(b.name);
      case 'inventory':  return (b.inventory || 0) - (a.inventory || 0);
      default:           return 0;
    }
  });
  \<close>
\<close>

definition compareProducts ::
  "runtime \<Rightarrow> string \<Rightarrow> 'id product \<Rightarrow> 'id product \<Rightarrow> real" where
  "compareProducts rt sort_by a b =
     (if sort_by = ''price-low'' then price a - price b
      else if sort_by = ''price-high'' then price b - price a
      else if sort_by = ''rating'' then or_zero (rating b) - or_zero (rating a)
      else if sort_by = ''name'' then localeCompare rt (name a) (name b)
      else if sort_by = ''inventory'' then or_zero (inventory b) - or_zero (inventory a)
      else 0)"

text \<open>The three predicates handed to \<open>filter\<close> in \<open>filteredProducts\<close>.\<close>

definition matchesCategory :: "filters \<Rightarrow> 'id product \<Rightarrow> bool" where
  "matchesCategory fs p = (product.category p = filters.category fs)"

definition inPriceRange :: "filters \<Rightarrow> 'id product \<Rightarrow> bool" where
  "inPriceRange fs p =
     (price p \<ge> min' (priceRange fs) \<and> price p \<le> max' (priceRange fs))"

text \<open>
  \<^verbatim>\<open>
  product.name.toLowerCase().includes(query) ||
  product.description.toLowerCase().includes(query) ||
  product.tags?.some(tag => tag.toLowerCase().includes(query)) ||
  product.brand.toLowerCase().includes(query)
  \<close>
\<close>

definition matchesQuery :: "runtime \<Rightarrow> string \<Rightarrow> 'id product \<Rightarrow> bool" where
  "matchesQuery rt query p =
     (String_includes (toLowerCase rt (name p)) query
      \<or> String_includes (toLowerCase rt (description p)) query
      \<or> (case tags p of None \<Rightarrow> False
          | Some ts \<Rightarrow> list_ex (\<lambda>tag. String_includes (toLowerCase rt tag) query) ts)
      \<or> String_includes (toLowerCase rt (brand p)) query)"

text \<open>
  \<open>filteredProducts\<close>, statement by statement. The search filter is applied when the
  trimmed query is non-empty, and then searches for the lower-cased, untrimmed query.
\<close>

definition filteredProducts ::
  "runtime \<Rightarrow> filters \<Rightarrow> 'id product list \<Rightarrow> 'id product list" where
  "filteredProducts rt fs products =
     (let filtered = products;
          filtered = (if filters.category fs \<noteq> ''all''
                      then filter (matchesCategory fs) filtered else filtered);
          filtered = filter (inPriceRange fs) filtered;
          filtered = (if trim rt (searchQuery fs) \<noteq> []
                      then (let query = toLowerCase rt (searchQuery fs)
                            in filter (matchesQuery rt query) filtered)
                      else filtered)
      in Array_sort (compareProducts rt (sortBy fs)) filtered)"

text \<open>
  The search filter as a predicate on one product: what \<open>filteredProducts\<close> demands of a
  product under the active search query.
\<close>

definition passesSearch :: "runtime \<Rightarrow> filters \<Rightarrow> 'id product \<Rightarrow> bool" where
  "passesSearch rt fs p =
     (if trim rt (searchQuery fs) \<noteq> []
      then matchesQuery rt (toLowerCase rt (searchQuery fs)) p else True)"


section \<open>Browsing-history panel (components/BrowsingHistory.js)\<close>

text \<open>
  \<^verbatim>\<open>
  const historyProducts = useMemo(() => {
    return history
      .map(productId => products.find(p => p.id === productId))
      .filter(Boolean) // Remove any undefined products
      .reverse(); // Show most recent first
  }, [history, products]);
  \<close>
  \<open>find\<close> returns the first matching product or \<open>undefined\<close> (\<open>None\<close>); a product object is
  truthy, so \<open>filter(Boolean)\<close> drops exactly the \<open>undefined\<close> entries. The panel renders
  \<open>historyProducts.map(...)\<close>, one item per element, in this order.
\<close>

fun filter_Boolean :: "'a option list \<Rightarrow> 'a list" where
  "filter_Boolean [] = []"
| "filter_Boolean (None # xs) = filter_Boolean xs"
| "filter_Boolean (Some x # xs) = x # filter_Boolean xs"

definition historyProducts :: "'id list \<Rightarrow> 'id product list \<Rightarrow> 'id product list" where
  "historyProducts history products =
     rev (filter_Boolean (map (\<lambda>productId. find (\<lambda>p. id' p = productId) products) history))"


section \<open>Recommendations panel (components/Recommendations.js)\<close>

record 'id recommendation =
  product :: "'id product"
  explanation :: string
  confidence_score :: "real option"

text \<open>
  The \<open>recommendations\<close> prop: \<open>null\<close>/\<open>undefined\<close>, some value that is not an array, or an
  array of recommendations.
\<close>

datatype 'id recommendations_prop =
  Nullish | Not_an_array | Array_of "'id recommendation list"

text \<open>
  \<^verbatim>\<open>
  const sortedRecommendations = useMemo(() => {
    if (!recommendations || !Array.isArray(recommendations)) return [];
    return [...recommendations].sort((a, b) => {
      const scoreA = a.confidence_score || 0;
      const scoreB = b.confidence_score || 0;
      return scoreB - scoreA;
    });
  }, [recommendations]);
  \<close>
\<close>

definition compareRecommendations ::
  "'id recommendation \<Rightarrow> 'id recommendation \<Rightarrow> real" where
  "compareRecommendations a b =
     (let scoreA = or_zero (confidence_score a);
          scoreB = or_zero (confidence_score b)
      in scoreB - scoreA)"

definition sortedRecommendations ::
  "'id recommendations_prop \<Rightarrow> 'id recommendation list" where
  "sortedRecommendations recommendations =
     (case recommendations of
        Nullish \<Rightarrow> []
      | Not_an_array \<Rightarrow> []
      | Array_of rs \<Rightarrow> Array_sort compareRecommendations rs)"


section \<open>JSON values and the JavaScript operations applied to them\<close>

text \<open>
  What \<open>response.json()\<close> yields: a JSON value. An object is the list of its own
  properties, each key once, in insertion order. Numbers are the reals they denote (JSON
  has no NaN and no infinities).
\<close>

datatype json =
  JNull
  | JBool bool
  | JNum real
  | JStr string
  | JArr "json list"
  | JObj "(string \<times> json) list"

text \<open>
  What can be thrown in \<open>services/api.js\<close>: the module's own \<open>ApiError(message, status,
  data)\<close>, the \<open>TypeError\<close> of a rejected \<open>fetch\<close> or of a property read on \<open>null\<close>, and the
  \<open>SyntaxError\<close> of \<open>response.json()\<close> on a body that is not JSON.
\<close>

datatype exn =
  ApiError (message: string) (status: nat) (data: json)
  | TypeError
  | SyntaxError

text \<open>
  The functions of the runtime and of the build environment that \<open>api.js\<close> calls:
  \<open>process.env.REACT_APP_API_URL\<close> (\<open>None\<close> when unset), the rendering of a number as a
  string, \<open>JSON.stringify\<close> and \<open>encodeURIComponent\<close>. They are parameters of the model.
\<close>

record api_runtime =
  REACT_APP_API_URL :: "string option"
  Number_toString :: "real \<Rightarrow> string"
  JSON_stringify :: "json \<Rightarrow> string"
  encodeURIComponent :: "string \<Rightarrow> string"

text \<open>Truthiness of a JSON value; \<open>undefined\<close> is \<open>None\<close>.\<close>

fun truthy :: "json \<Rightarrow> bool" where
  "truthy JNull = False"
| "truthy (JBool b) = b"
| "truthy (JNum n) = (n \<noteq> 0)"
| "truthy (JStr s) = (s \<noteq> [])"
| "truthy (JArr xs) = True"
| "truthy (JObj kvs) = True"

definition falsy :: "json option \<Rightarrow> bool" where
  "falsy a = (case a of None \<Rightarrow> True | Some v \<Rightarrow> \<not> truthy v)"

text \<open>\<open>a || b\<close> where \<open>a\<close> may be \<open>undefined\<close> and \<open>b\<close> is a value.\<close>

definition or_else :: "json option \<Rightarrow> json \<Rightarrow> json" where
  "or_else a b = (case a of None \<Rightarrow> b | Some v \<Rightarrow> if truthy v then v else b)"

text \<open>
  \<open>v.key\<close> for a value \<open>v\<close> other than \<open>null\<close> and one of the keys this module reads
  (\<open>detail\<close>, \<open>error\<close>, \<open>products\<close>, \<open>categories\<close>, \<open>product\<close>), none of which a prototype
  defines: the own property of an object, \<open>undefined\<close> on anything else. On \<open>null\<close> the read
  throws a \<open>TypeError\<close>.
\<close>

fun get_prop :: "json \<Rightarrow> string \<Rightarrow> json option" where
  "get_prop (JObj kvs) key = map_of kvs key"
| "get_prop v key = None"

definition read_prop :: "json \<Rightarrow> string \<Rightarrow> exn + json option" where
  "read_prop v key = (case v of JNull \<Rightarrow> Inl TypeError | _ \<Rightarrow> Inr (get_prop v key))"

definition isArray :: "json \<Rightarrow> bool" where
  "isArray v = (case v of JArr xs \<Rightarrow> True | _ \<Rightarrow> False)"

text \<open>
  \<open>ToString\<close>, as the \<open>Error\<close> constructor and template literals apply it. An array is
  joined with commas, \<open>null\<close> elements giving the empty string. A parsed object has no
  callable property, so it renders through \<open>Object.prototype.toString\<close>, unless an own
  property named \<open>toString\<close> hides that method: then the conversion throws a \<open>TypeError\<close>
  (\<open>None\<close>).
\<close>

fun join_strings :: "string option list \<Rightarrow> string option" where
  "join_strings [] = Some []"
| "join_strings [x] = x"
| "join_strings (x # y # ys) =
     (case x of None \<Rightarrow> None
      | Some s \<Rightarrow> (case join_strings (y # ys) of None \<Rightarrow> None
                  | Some r \<Rightarrow> Some (s @ '','' @ r)))"

fun ToString :: "api_runtime \<Rightarrow> json \<Rightarrow> string option" where
  "ToString rt JNull = Some ''null''"
| "ToString rt (JBool b) = Some (if b then ''true'' else ''false'')"
| "ToString rt (JNum n) = Some (Number_toString rt n)"
| "ToString rt (JStr s) = Some s"
| "ToString rt (JArr xs) =
     join_strings (map (\<lambda>x. if x = JNull then Some [] else ToString rt x) xs)"
| "ToString rt (JObj kvs) =
     (if ''toString'' \<in> set (map fst kvs) then None else Some ''[object Object]'')"

text \<open>
  The values on which that conversion throws: an object with an own property named
  \<open>toString\<close>, and an array that holds such a value.
\<close>

fun hides_toString :: "json \<Rightarrow> bool" where
  "hides_toString (JObj kvs) = (''toString'' \<in> set (map fst kvs))"
| "hides_toString (JArr xs) = list_ex hides_toString xs"
| "hides_toString v = False"

text \<open>The decimal rendering of a natural number, as a template literal renders an HTTP status.\<close>

fun decimal :: "nat \<Rightarrow> string" where
  "decimal n =
     (if n < 10 then [char_of (48 + n)]
      else decimal (n div 10) @ [char_of (48 + n mod 10)])"

declare decimal.simps [simp del]


section \<open>fetch and asynchronous functions\<close>

text \<open>
  The second argument of \<open>fetch\<close> (and of \<open>apiRequest\<close>): each property may be absent.
  A request is the pair of arguments \<open>fetch\<close> is called with; calling it with a URL alone
  is calling it with the empty init. \<open>fetch\<close> sends \<open>GET\<close> when no method is given.
\<close>

record RequestInit =
  method' :: "string option"
  headers :: "(string \<times> string) list option"
  body :: "string option"

type_synonym request = "string \<times> RequestInit"

definition no_init :: RequestInit where
  "no_init = \<lparr>method' = None, headers = None, body = None\<rparr>"

definition request_method :: "request \<Rightarrow> string" where
  "request_method req = (case method' (snd req) of None \<Rightarrow> ''GET'' | Some m \<Rightarrow> m)"

text \<open>
  How a request ends: the promise of \<open>fetch\<close> rejects (no response), or it resolves to a
  response with a status and a body, on which \<open>response.json()\<close> resolves to the parsed
  value or rejects (\<open>None\<close>). \<open>response.ok\<close> is true for a status from 200 to 299.
\<close>

datatype fetch_outcome =
  Rejected
  | Response (response_status: nat) (response_json: "json option")

definition ok :: "nat \<Rightarrow> bool" where
  "ok st = (200 \<le> st \<and> st \<le> 299)"

text \<open>
  An asynchronous function runs until it has a result, or until it awaits requests it
  has handed to \<open>fetch\<close>; it resumes with their outcomes. \<open>Await reqs k\<close> is a function
  suspended with the requests \<open>reqs\<close> in flight, all of them sent and none answered; \<open>k\<close>
  receives the outcome of each request and continues. A result of type \<open>exn + 'a\<close> is a
  promise that rejects (\<open>Inl\<close>) or resolves (\<open>Inr\<close>).
\<close>

datatype 'a task =
  Done 'a
  | Await "request list" "(request \<Rightarrow> fetch_outcome) \<Rightarrow> 'a task"

definition fetch :: "request \<Rightarrow> fetch_outcome task" where
  "fetch req = Await [req] (\<lambda>outcome. Done (outcome req))"

primrec task_bind :: "'a task \<Rightarrow> ('a \<Rightarrow> 'b task) \<Rightarrow> 'b task" where
  "task_bind (Done a) f = f a"
| "task_bind (Await reqs k) f = Await reqs (\<lambda>outcome. task_bind (k outcome) f)"

definition task_map :: "('a \<Rightarrow> 'b) \<Rightarrow> 'a task \<Rightarrow> 'b task" where
  "task_map f t = task_bind t (\<lambda>a. Done (f a))"

text \<open>
  \<open>Promise.all([p, q])\<close> on two asynchronous calls: both calls are made while the array
  literal is evaluated, so each has run up to its first \<open>await\<close> and the requests of both
  are in flight together before either is answered. Two suspended calls resume once the
  requests of both are answered; the calls this program joins await once each.
\<close>

primrec promise_all2 :: "'a task \<Rightarrow> 'b task \<Rightarrow> ('a \<times> 'b) task" where
  "promise_all2 (Done a) t = task_map (Pair a) t"
| "promise_all2 (Await reqs k) t =
     (case t of
        Done b \<Rightarrow> Await reqs (\<lambda>outcome. promise_all2 (k outcome) (Done b))
      | Await reqs' k' \<Rightarrow>
          Await (reqs @ reqs') (\<lambda>outcome. promise_all2 (k outcome) (k' outcome)))"

text \<open>
  Observing a task against a server, which fixes the outcome of every request: its
  result, the requests it sends in order, and the largest number of requests it ever has
  in flight at one time.
\<close>

primrec run :: "(request \<Rightarrow> fetch_outcome) \<Rightarrow> 'a task \<Rightarrow> 'a" where
  "run server (Done a) = a"
| "run server (Await reqs k) = run server (k server)"

primrec requests_sent :: "(request \<Rightarrow> fetch_outcome) \<Rightarrow> 'a task \<Rightarrow> request list" where
  "requests_sent server (Done a) = []"
| "requests_sent server (Await reqs k) = reqs @ requests_sent server (k server)"

primrec max_in_flight :: "(request \<Rightarrow> fetch_outcome) \<Rightarrow> 'a task \<Rightarrow> nat" where
  "max_in_flight server (Done a) = 0"
| "max_in_flight server (Await reqs k) = max (length reqs) (max_in_flight server (k server))"


section \<open>The API client (services/api.js)\<close>

text \<open>
  \<^verbatim>\<open>
  const API_BASE_URL = process.env.REACT_APP_API_URL || 'http://localhost:5000/api';
  \<close>
\<close>

definition API_BASE_URL :: "api_runtime \<Rightarrow> string" where
  "API_BASE_URL rt =
     (case REACT_APP_API_URL rt of
        None \<Rightarrow> ''http://localhost:5000/api''
      | Some u \<Rightarrow> if u \<noteq> [] then u else ''http://localhost:5000/api'')"

text \<open>
  \<open>new ApiError(message, status, data)\<close>: \<open>super(message)\<close> stores the string conversion
  of the message, and throws if that conversion does.
\<close>

definition new_ApiError :: "api_runtime \<Rightarrow> json \<Rightarrow> nat \<Rightarrow> json \<Rightarrow> exn" where
  "new_ApiError rt msg st d =
     (case ToString rt msg of None \<Rightarrow> TypeError | Some m \<Rightarrow> ApiError m st d)"

text \<open>
  The argument \<open>data.detail || data.error || `HTTP error ${response.status}`\<close>; reading
  \<open>data.detail\<close> throws when \<open>data\<close> is \<open>null\<close>.
\<close>

definition error_message :: "json \<Rightarrow> nat \<Rightarrow> exn + json" where
  "error_message d st =
     (case read_prop d ''detail'' of
        Inl e \<Rightarrow> Inl e
      | Inr detail \<Rightarrow>
          Inr (or_else detail
                 (or_else (get_prop d ''error'') (JStr (''HTTP error '' @ decimal st)))))"

text \<open>
  \<^verbatim>\<open>
  const apiRequest = async (endpoint, options = {}) => {
    const url = `${API_BASE_URL}${endpoint}`;
    const config = {
      headers: { 'Content-Type': 'application/json', ...options.headers },
      ...options,
    };
    try {
      const response = await fetch(url, config);
      const data = await response.json();
      if (!response.ok) {
        throw new ApiError(
          data.detail || data.error || `HTTP error ${response.status}`,
          response.status, data);
      }
      return data;
    } catch (error) {
      if (error instanceof ApiError) { throw error; }
      console.error('API request failed:', endpoint, error);
      throw new ApiError('Network error - please check your connection', 0, null);
    }
  };
  \<close>
  \<open>apiRequest_config\<close> is the object literal: the spread of \<open>options\<close> comes last, so a
  \<open>headers\<close> property of \<open>options\<close> replaces the merged headers. \<open>apiRequest_try\<close> is the
  \<open>try\<close> block from the point where \<open>fetch\<close> has settled, \<open>apiRequest_catch\<close> the handler.
\<close>

definition apiRequest_config :: "RequestInit \<Rightarrow> RequestInit" where
  "apiRequest_config options =
     \<lparr>method' = method' options,
      headers = (case headers options of
                   None \<Rightarrow> Some [(''Content-Type'', ''application/json'')]
                 | Some h \<Rightarrow> Some h),
      body = body options\<rparr>"

definition apiRequest_try :: "api_runtime \<Rightarrow> fetch_outcome \<Rightarrow> exn + json" where
  "apiRequest_try rt outcome =
     (case outcome of
        Rejected \<Rightarrow> Inl TypeError
      | Response st parsed \<Rightarrow>
          (case parsed of
             None \<Rightarrow> Inl SyntaxError
           | Some d \<Rightarrow>
               if \<not> ok st
               then (case error_message d st of
                       Inl e \<Rightarrow> Inl e
                     | Inr msg \<Rightarrow> Inl (new_ApiError rt msg st d))
               else Inr d))"

definition is_ApiError :: "exn \<Rightarrow> bool" where
  "is_ApiError e = (case e of ApiError m st d \<Rightarrow> True | _ \<Rightarrow> False)"

definition apiRequest_catch :: "exn \<Rightarrow> exn" where
  "apiRequest_catch error =
     (if is_ApiError error then error
      else ApiError ''Network error - please check your connection'' 0 JNull)"

definition apiRequest :: "api_runtime \<Rightarrow> string \<Rightarrow> RequestInit \<Rightarrow> (exn + json) task" where
  "apiRequest rt endpoint options =
     (let url = API_BASE_URL rt @ endpoint;
          config = apiRequest_config options
      in task_bind (fetch (url, config))
           (\<lambda>outcome. Done (case apiRequest_try rt outcome of
                               Inl error \<Rightarrow> Inl (apiRequest_catch error)
                             | Inr d \<Rightarrow> Inr d)))"

text \<open>
  The exported operations. Each wraps its body in \<open>try { ... } catch (error) {
  console.error(...); throw error; }\<close>, which passes every error on unchanged.
  \<open>response.key || response\<close> reads a property of the response and so throws a \<open>TypeError\<close>
  on a \<open>null\<close> response.
\<close>

definition prop_or_self :: "json \<Rightarrow> string \<Rightarrow> exn + json" where
  "prop_or_self response key =
     (case read_prop response key of
        Inl e \<Rightarrow> Inl e
      | Inr v \<Rightarrow> Inr (or_else v response))"

definition after_response :: "(json \<Rightarrow> exn + json) \<Rightarrow> (exn + json) task \<Rightarrow> (exn + json) task" where
  "after_response f t =
     task_bind t (\<lambda>r. Done (case r of Inl error \<Rightarrow> Inl error | Inr response \<Rightarrow> f response))"

text \<open>
  \<^verbatim>\<open>
  export const fetchProducts = async () => {
    const response = await apiRequest('/products');
    return Array.isArray(response) ? response : response.products || response;
  \<close>
\<close>

definition fetchProducts :: "api_runtime \<Rightarrow> (exn + json) task" where
  "fetchProducts rt =
     after_response
       (\<lambda>response. if isArray response then Inr response
                   else prop_or_self response ''products'')
       (apiRequest rt ''/products'' no_init)"

text \<open>
  \<^verbatim>\<open>
  export const fetchCategories = async () => {
    const response = await apiRequest('/categories');
    return response.categories || response;
  \<close>
\<close>

definition fetchCategories :: "api_runtime \<Rightarrow> (exn + json) task" where
  "fetchCategories rt =
     after_response (\<lambda>response. prop_or_self response ''categories'')
       (apiRequest rt ''/categories'' no_init)"

text \<open>
  \<^verbatim>\<open>
  export const fetchProductById = async (productId) => {
    const response = await apiRequest(`/products/${productId}`);
    return response.product || response;
  \<close>
  The template literal converts \<open>productId\<close> to a string inside the \<open>try\<close> block.
\<close>

definition fetchProductById :: "api_runtime \<Rightarrow> json \<Rightarrow> (exn + json) task" where
  "fetchProductById rt productId =
     (case ToString rt productId of
        None \<Rightarrow> Done (Inl TypeError)
      | Some s \<Rightarrow>
          after_response (\<lambda>response. prop_or_self response ''product'')
            (apiRequest rt (''/products/'' @ s) no_init))"

text \<open>
  \<^verbatim>\<open>
  export const searchProducts = async (query, limit = 20) => {
    const response = await apiRequest(
      `/products/search?query=${encodeURIComponent(query)}&limit=${limit}`);
    return response.products || response;
  \<close>
\<close>

definition searchProducts :: "api_runtime \<Rightarrow> string \<Rightarrow> real option \<Rightarrow> (exn + json) task" where
  "searchProducts rt query limit =
     (let limit = (case limit of None \<Rightarrow> 20 | Some l \<Rightarrow> l)
      in after_response (\<lambda>response. prop_or_self response ''products'')
           (apiRequest rt
              (''/products/search?query='' @ encodeURIComponent rt query
                 @ ''&limit='' @ Number_toString rt limit)
              no_init))"

text \<open>
  \<^verbatim>\<open>
  export const filterProducts = async (filters) => {
    const response = await apiRequest('/products/filter', {
      method: 'POST', body: JSON.stringify(filters) });
    return response.products || response;
  \<close>
\<close>

definition filterProducts :: "api_runtime \<Rightarrow> json \<Rightarrow> (exn + json) task" where
  "filterProducts rt fs =
     after_response (\<lambda>response. prop_or_self response ''products'')
       (apiRequest rt ''/products/filter''
          \<lparr>method' = Some ''POST'', headers = None, body = Some (JSON_stringify rt fs)\<rparr>)"

text \<open>
  \<^verbatim>\<open>
  export const getRecommendations = async (preferences, browsingHistory) => {
    const response = await apiRequest('/recommendations', {
      method: 'POST',
      body: JSON.stringify({
        preferences: preferences,
        browsing_history: browsingHistory
      }),
    });
    return response;
  \<close>
\<close>

definition getRecommendations :: "api_runtime \<Rightarrow> json \<Rightarrow> json \<Rightarrow> (exn + json) task" where
  "getRecommendations rt preferences browsingHistory =
     after_response (\<lambda>response. Inr response)
       (apiRequest rt ''/recommendations''
          \<lparr>method' = Some ''POST'', headers = None,
           body = Some (JSON_stringify rt
                          (JObj [(''preferences'', preferences),
                                 (''browsing_history'', browsingHistory)]))\<rparr>)"

text \<open>
  \<^verbatim>\<open>
  export const healthCheck = async () => {
    try {
      // Health check is at root level, not /api/health
      const response = await fetch('http://localhost:5000/health');
      return response.json();
    } catch (error) { console.error('Health check failed:', error); throw error; }
  };
  \<close>
  No status check and no wrapping: a rejected \<open>fetch\<close> and an unparsable body surface as
  the runtime's own errors.
\<close>

definition healthCheck :: "(exn + json) task" where
  "healthCheck =
     task_bind (fetch (''http://localhost:5000/health'', no_init))
       (\<lambda>outcome. Done (case outcome of
                           Rejected \<Rightarrow> Inl TypeError
                         | Response st parsed \<Rightarrow>
                             (case parsed of None \<Rightarrow> Inl SyntaxError | Some d \<Rightarrow> Inr d)))"

text \<open>The client operations other than \<open>healthCheck\<close>, each called on arguments.\<close>

definition other_operations ::
  "api_runtime \<Rightarrow> json \<Rightarrow> string \<Rightarrow> real option \<Rightarrow> json \<Rightarrow> json \<Rightarrow> json
     \<Rightarrow> (exn + json) task list" where
  "other_operations rt productId query limit fs preferences browsingHistory =
     [fetchProducts rt, fetchCategories rt, fetchProductById rt productId,
      searchProducts rt query limit, filterProducts rt fs,
      getRecommendations rt preferences browsingHistory]"


section \<open>Loading the initial data (App.js)\<close>

text \<open>
  The part of the \<open>App\<close> state that \<open>loadInitialData\<close> writes, the error banner apart (its
  text comes from the messages of runtime errors, which the model does not carry).
\<close>

record app_state =
  products :: json
  categories :: json
  isInitialLoading :: bool
  apiStatus :: string

definition initial_app_state :: app_state where
  "initial_app_state =
     \<lparr>products = JArr [], categories = JArr [], isInitialLoading = True,
      apiStatus = ''unknown''\<rparr>"

text \<open>\<open>!productsData || productsData.length === 0\<close>\<close>

definition no_products :: "json \<Rightarrow> bool" where
  "no_products productsData =
     (\<not> truthy productsData
      \<or> (case productsData of
            JArr xs \<Rightarrow> xs = []
          | JObj kvs \<Rightarrow> map_of kvs ''length'' = Some (JNum 0)
          | _ \<Rightarrow> False))"

text \<open>\<open>promise.catch(() => [])\<close>\<close>

definition catch_empty :: "(exn + json) task \<Rightarrow> (exn + json) task" where
  "catch_empty t = task_map (\<lambda>r. case r of Inl e \<Rightarrow> Inr (JArr []) | Inr v \<Rightarrow> Inr v) t"

text \<open>
  \<^verbatim>\<open>
  const loadInitialData = async () => {
    try {
      setIsInitialLoading(true);
      setError(null);
      // Check API health first
      try {
        await healthCheck();
        setApiStatus('connected');
      } catch (err) {
        setApiStatus('disconnected');
        throw new Error('Unable to connect to the recommendation service. ...');
      }
      // Load products and categories in parallel
      const [productsData, categoriesData] = await Promise.all([
        fetchProducts(),
        fetchCategories().catch(() => []) // Categories are optional
      ]);
      if (!productsData || productsData.length === 0) {
        throw new Error('No products available. Please check the backend service.');
      }
      setProducts(productsData);
      setCategories(categoriesData);
    } catch (err) {
      ... setError(...);
      setApiStatus('error');
    } finally {
      setIsInitialLoading(false);
    }
  };
  \<close>
  \<open>load_failed\<close> is the outer \<open>catch\<close> followed by \<open>finally\<close>.
\<close>

definition load_failed :: "app_state \<Rightarrow> app_state" where
  "load_failed st = st\<lparr>apiStatus := ''error'', isInitialLoading := False\<rparr>"

definition loadInitialData :: "api_runtime \<Rightarrow> app_state \<Rightarrow> app_state task" where
  "loadInitialData rt st0 =
     (let st1 = st0\<lparr>isInitialLoading := True\<rparr>
      in task_bind healthCheck
           (\<lambda>health.
              case health of
                Inl err \<Rightarrow> Done (load_failed (st1\<lparr>apiStatus := ''disconnected''\<rparr>))
              | Inr h \<Rightarrow>
                  (let st2 = st1\<lparr>apiStatus := ''connected''\<rparr>
                   in task_bind
                        (promise_all2 (fetchProducts rt) (catch_empty (fetchCategories rt)))
                        (\<lambda>(p, c).
                           case p of
                             Inl err \<Rightarrow> Done (load_failed st2)
                           | Inr productsData \<Rightarrow>
                               (case c of
                                  Inl err \<Rightarrow> Done (load_failed st2)
                                | Inr categoriesData \<Rightarrow>
                                    if no_products productsData
                                    then Done (load_failed st2)
                                    else Done (st2\<lparr>products := productsData,
                                                   categories := categoriesData,
                                                   isInitialLoading := False\<rparr>))))))"


section \<open>Concrete inputs\<close>

text \<open>
  Inputs on which the model is evaluated below. \<open>ascii_runtime\<close> is one instance of the
  runtime parameters, not a model of the JavaScript functions: no theorem about the
  components assumes it. It agrees with JavaScript where the examples use it:
  \<open>ascii_lower\<close> lowers the letters A to Z and leaves every other character alone, as
  \<open>toLowerCase\<close> does on ASCII text; \<open>ascii_trim\<close> strips the white space and line
  terminators that are ASCII (tab, line feed, vertical tab, form feed, carriage
  return, space), as \<open>trim\<close> does on a string without other white space;
  \<open>ascii_compare\<close> orders by character code, which is the order of \<open>localeCompare\<close> only
  between strings of lower-case letters, and no example sorts by name.
\<close>

definition ascii_lower :: "char \<Rightarrow> char" where
  "ascii_lower c =
     (let n = (of_char c :: nat) in if 65 \<le> n \<and> n \<le> 90 then char_of (n + 32) else c)"

definition ascii_space :: "char \<Rightarrow> bool" where
  "ascii_space c = (let n = (of_char c :: nat) in (9 \<le> n \<and> n \<le> 13) \<or> n = 32)"

definition ascii_trim :: "string \<Rightarrow> string" where
  "ascii_trim s = rev (dropWhile ascii_space (rev (dropWhile ascii_space s)))"

definition ascii_compare :: "string \<Rightarrow> string \<Rightarrow> real" where
  "ascii_compare a b =
     (if a = b then 0
      else if ord.lexordp (<) (map of_char a :: nat list) (map of_char b) then - 1 else 1)"

definition ascii_runtime :: runtime where
  "ascii_runtime =
     \<lparr>toLowerCase = map ascii_lower, trim = ascii_trim, localeCompare = ascii_compare\<rparr>"

text \<open>
  \<open>local_runtime\<close>: no \<open>REACT_APP_API_URL\<close> in the environment. It is one instance of the
  runtime parameters, not a model of the JavaScript functions, and every theorem about
  the client holds for all instances. It agrees with JavaScript where the examples use
  it: its number rendering on the natural numbers below \<open>10^21\<close>, its \<open>JSON.stringify\<close> on
  values built from such numbers and from strings and keys that need no escaping, its
  \<open>encodeURIComponent\<close> on strings of unreserved characters. \<open>root_runtime\<close> is the same
  with \<open>REACT_APP_API_URL\<close> set to the origin of the backend.
\<close>

fun intersperse_commas :: "string list \<Rightarrow> string" where
  "intersperse_commas [] = []"
| "intersperse_commas [s] = s"
| "intersperse_commas (s # t # ts) = s @ '','' @ intersperse_commas (t # ts)"

fun plain_stringify :: "json \<Rightarrow> string" where
  "plain_stringify JNull = ''null''"
| "plain_stringify (JBool b) = (if b then ''true'' else ''false'')"
| "plain_stringify (JNum n) = decimal (nat \<lfloor>n\<rfloor>)"
| "plain_stringify (JStr s) = [CHR 0x22] @ s @ [CHR 0x22]"
| "plain_stringify (JArr xs) = ''['' @ intersperse_commas (map plain_stringify xs) @ '']''"
| "plain_stringify (JObj kvs) =
     ''{'' @ intersperse_commas
               (map (\<lambda>kv. [CHR 0x22] @ fst kv @ [CHR 0x22] @ '':'' @ plain_stringify (snd kv)) kvs)
       @ ''}''"

definition local_runtime :: api_runtime where
  "local_runtime =
     \<lparr>REACT_APP_API_URL = None,
      Number_toString = (\<lambda>n. decimal (nat \<lfloor>n\<rfloor>)),
      JSON_stringify = plain_stringify,
      encodeURIComponent = (\<lambda>s. s)\<rparr>"

definition root_runtime :: api_runtime where
  "root_runtime = local_runtime\<lparr>REACT_APP_API_URL := Some ''http://localhost:5000''\<rparr>"

definition phone :: "nat product" where
  "phone =
     \<lparr>id' = 1, name = ''Phone X'', description = ''A smart phone'', price = 499,
      category = ''electronics'', brand = ''Acme'', rating = Some 4, inventory = Some 3,
      tags = Some [''Mobile''], features = None\<rparr>"

definition socks :: "nat product" where
  "socks =
     \<lparr>id' = 2, name = ''Wool socks'', description = ''Warm'', price = 12,
      category = ''clothing'', brand = ''Knit'', rating = None, inventory = Some 0,
      tags = None, features = None\<rparr>"

definition laptop :: "nat product" where
  "laptop =
     \<lparr>id' = 3, name = ''Laptop Pro'', description = ''Not a phone'', price = 1500,
      category = ''electronics'', brand = ''Acme'', rating = Some 5, inventory = None,
      tags = Some [], features = None\<rparr>"

definition electronics_filters :: filters where
  "electronics_filters =
     \<lparr>category = ''electronics'', priceRange = \<lparr>min' = 0, max' = 1000\<rparr>,
      sortBy = ''rating'', searchQuery = ''Phone''\<rparr>"

text \<open>
  A backend that answers every request with the same status and JSON body, and one that
  answers with status 200 and a one-element array.
\<close>

definition answering :: "nat \<Rightarrow> json \<Rightarrow> request \<Rightarrow> fetch_outcome" where
  "answering st payload req = Response st (Some payload)"

definition healthy_server :: "request \<Rightarrow> fetch_outcome" where
  "healthy_server = answering 200 (JArr [JStr ''item''])"


section \<open>Properties of the browsing history\<close>

lemma handleProductClick_eq:
  "handleProductClick productId prev = productId # take 49 (filter (\<lambda>id. id \<noteq> productId) prev)"
proof -
  have "take 50 (productId # xs) = productId # take 49 xs" for xs :: "'a list"
    by (simp add: take_Cons')
  then show ?thesis
    by (simp add: handleProductClick_def)
qed

lemma handleProductClick_distinct:
  "distinct prev \<Longrightarrow> distinct (handleProductClick productId prev)"
proof -
  assume d: "distinct prev"
  let ?f = "filter (\<lambda>id. id \<noteq> productId) prev"
  have "distinct ?f" using d by simp
  then have "distinct (take 49 ?f)" by simp
  moreover have "productId \<notin> set (take 49 ?f)"
  proof
    assume "productId \<in> set (take 49 ?f)"
    then have "productId \<in> set ?f" by (rule in_set_takeD)
    then show False by simp
  qed
  ultimately show ?thesis
    by (simp add: handleProductClick_eq)
qed

lemma history_step_distinct:
  "distinct h \<Longrightarrow> distinct (history_step h e)"
  by (cases e) (simp_all add: handleProductClick_distinct handleClearHistory_def)

lemma foldl_history_step_distinct:
  "distinct h \<Longrightarrow> distinct (foldl history_step h events)"
  by (induction events arbitrary: h) (simp_all add: history_step_distinct)

text \<open>
  C1. Whatever the previous history and whatever the clicked ID, the history returned by
  the click handler has the clicked ID at index 0, holds at most 50 IDs, and behind the
  clicked ID keeps the other earlier entries in their previous (most-recent-first) order.
\<close>

theorem handleProductClick_recent_first_capped:
  "handleProductClick productId prev \<noteq> []
   \<and> handleProductClick productId prev ! 0 = productId
   \<and> length (handleProductClick productId prev) \<le> 50
   \<and> tl (handleProductClick productId prev) = take 49 (filter (\<lambda>id. id \<noteq> productId) prev)"
  by (simp add: handleProductClick_eq)

text \<open>
  C8. Starting from the empty history, after any sequence of product clicks and
  clear-history events the history holds no product ID twice.
\<close>

theorem history_never_has_duplicates:
  "distinct (history_after events)"
  unfolding history_after_def
  by (rule foldl_history_step_distinct) simp


section \<open>Properties of the browsing-history panel\<close>

lemma filter_Boolean_append:
  "filter_Boolean (xs @ ys) = filter_Boolean xs @ filter_Boolean ys"
  by (induction xs rule: filter_Boolean.induct) simp_all

lemma filter_Boolean_map_filter: "filter_Boolean (map f xs) = List.map_filter f xs"
  by (induction xs) (simp_all add: List.map_filter_simps split: option.splits)

text \<open>
  C9. The products the panel renders are the history IDs mapped to their products, IDs
  without a product dropped, in reverse order of the history. So the product of the
  last (oldest) history entry comes first in the panel and the product of the first
  (newest) entry comes last: with a most-recent-first history the panel starts with the
  earliest-clicked product that survives.
\<close>

theorem historyProducts_reversed_survivors:
  "historyProducts h ps =
     rev (List.map_filter (\<lambda>productId. find (\<lambda>p. id' p = productId) ps) h)
   \<and> historyProducts (h @ [oldest]) ps =
       (case find (\<lambda>p. id' p = oldest) ps of None \<Rightarrow> [] | Some p \<Rightarrow> [p])
       @ historyProducts h ps
   \<and> historyProducts (newest # h) ps =
       historyProducts h ps
       @ (case find (\<lambda>p. id' p = newest) ps of None \<Rightarrow> [] | Some p \<Rightarrow> [p])"
  by (simp add: historyProducts_def filter_Boolean_map_filter filter_Boolean_append
      split: option.splits)

text \<open>
  After clicking the phone, then an unknown product 9, then the laptop, the history is
  \<open>[3, 9, 1]\<close> and the panel shows the phone before the laptop.
\<close>

lemma historyProducts_after_three_clicks:
  "history_after [ProductClick 1, ProductClick 9, ProductClick 3] = [3, 9, 1 :: nat]
   \<and> historyProducts (history_after [ProductClick 1, ProductClick 9, ProductClick 3])
        [phone, socks, laptop] = [phone, laptop]"
  by code_simp


section \<open>Properties of sorting and filtering\<close>

lemma mset_insert_sorted: "mset (insert_sorted cmp x xs) = add_mset x (mset xs)"
  by (induction xs) simp_all

lemma mset_Array_sort: "mset (Array_sort cmp xs) = mset xs"
  by (induction xs) (simp_all add: mset_insert_sorted)

lemma set_insert_sorted: "set (insert_sorted cmp x xs) = insert x (set xs)"
  by (induction xs) auto

text \<open>
  A comparator that is non-positive exactly when its first argument has the larger or
  equal key sorts into non-increasing order of the key.
\<close>

lemma sorted_insert_sorted:
  assumes key: "\<And>a b. (cmp a b \<le> 0) = (k b \<le> k a)"
    and sorted: "sorted_wrt (\<lambda>a b. k b \<le> k a) xs"
  shows "sorted_wrt (\<lambda>a b. (k b :: real) \<le> k a) (insert_sorted cmp x xs)"
  using sorted
proof (induction xs)
  case Nil
  then show ?case by simp
next
  case (Cons y ys)
  show ?case
  proof (cases "cmp x y \<le> 0")
    case True
    then have "k y \<le> k x" using key by simp
    with Cons.prems True show ?thesis by auto
  next
    case False
    then have "k x \<le> k y" using key by (metis linear)
    with Cons False show ?thesis by (auto simp: set_insert_sorted)
  qed
qed

lemma sorted_Array_sort:
  assumes key: "\<And>a b. (cmp a b \<le> 0) = (k b \<le> k a)"
  shows "sorted_wrt (\<lambda>a b. (k b :: real) \<le> k a) (Array_sort cmp xs)"
  by (induction xs) (simp_all add: sorted_insert_sorted [OF key])

text \<open>
  C10. For an array of recommendations the panel shows a permutation of it in
  non-increasing order of \<open>confidence_score || 0\<close>; for \<open>null\<close>, \<open>undefined\<close> or a value that
  is not an array it shows the empty list.
\<close>

theorem sortedRecommendations_sorted_permutation:
  "mset (sortedRecommendations (Array_of rs)) = mset rs
   \<and> sorted_wrt (\<lambda>a b. or_zero (confidence_score a) \<ge> or_zero (confidence_score b))
        (sortedRecommendations (Array_of rs))
   \<and> sortedRecommendations Nullish = []
   \<and> sortedRecommendations Not_an_array = []"
proof -
  have "sorted_wrt (\<lambda>a b. or_zero (confidence_score b) \<le> or_zero (confidence_score a))
          (Array_sort compareRecommendations rs)"
    by (rule sorted_Array_sort) (simp add: compareRecommendations_def Let_def)
  then show ?thesis
    by (simp add: sortedRecommendations_def mset_Array_sort)
qed

text \<open>A missing score and a score of 0 both count as 0, any other score as itself.\<close>

lemma or_zero_eq: "or_zero x = (case x of None \<Rightarrow> 0 | Some r \<Rightarrow> r)"
  by (simp add: or_zero_def split: option.splits)

text \<open>
  C4. When the selected category is not \<open>'all'\<close>, the displayed list holds exactly the
  products (with multiplicity) whose category equals the selected one and that lie in the
  price range and pass the search filter; every displayed product has the selected
  category.
\<close>

theorem filteredProducts_selected_category:
  assumes "filters.category fs \<noteq> ''all''"
  shows "mset (filteredProducts rt fs ps) =
           mset (filter (\<lambda>p. product.category p = filters.category fs
                            \<and> inPriceRange fs p \<and> passesSearch rt fs p) ps)
         \<and> (\<forall>p \<in> set (filteredProducts rt fs ps).
               product.category p = filters.category fs)"
proof -
  let ?wanted = "filter (\<lambda>p. product.category p = filters.category fs
                            \<and> inPriceRange fs p \<and> passesSearch rt fs p) ps"
  have m: "mset (filteredProducts rt fs ps) = mset ?wanted"
    using assms
    by (simp add: filteredProducts_def passesSearch_def matchesCategory_def mset_Array_sort
        Let_def conj_commute conj_left_commute)
  then have "set (filteredProducts rt fs ps) = set ?wanted"
    by (metis set_mset_mset)
  with m show ?thesis by simp
qed

theorem filteredProducts_selected_category_witness:
  "filters.category electronics_filters \<noteq> ''all''
   \<and> mset (filteredProducts ascii_runtime electronics_filters [phone, socks, laptop])
       = mset [phone]"
proof -
  have selected: "filters.category electronics_filters \<noteq> ''all''"
    by (simp add: electronics_filters_def)
  have wanted: "filter (\<lambda>p. product.category p = filters.category electronics_filters
                  \<and> inPriceRange electronics_filters p
                  \<and> passesSearch ascii_runtime electronics_filters p) [phone, socks, laptop]
                = [phone]"
    by code_simp
  note t = filteredProducts_selected_category
             [OF selected, of ascii_runtime "[phone, socks, laptop]"]
  from t have "mset (filteredProducts ascii_runtime electronics_filters [phone, socks, laptop])
                 = mset [phone]"
    by (simp only: wanted)
  with selected show ?thesis
    by (rule conjI)
qed

lemma filteredProducts_example:
  "filteredProducts ascii_runtime electronics_filters [phone, socks, laptop] = [phone]"
  by code_simp



section \<open>Properties of tasks\<close>

lemma run_task_bind: "run server (task_bind t f) = run server (f (run server t))"
  by (induction t) simp_all

lemma requests_sent_task_bind:
  "requests_sent server (task_bind t f) =
     requests_sent server t @ requests_sent server (f (run server t))"
  by (induction t) simp_all

lemma max_in_flight_task_bind:
  "max_in_flight server (task_bind t f) =
     max (max_in_flight server t) (max_in_flight server (f (run server t)))"
  by (induction t) simp_all

lemma run_after_response:
  "run server (after_response f t) =
     (case run server t of Inl error \<Rightarrow> Inl error | Inr response \<Rightarrow> f response)"
  by (simp add: after_response_def run_task_bind)

lemma requests_sent_after_response:
  "requests_sent server (after_response f t) = requests_sent server t"
  by (simp add: after_response_def requests_sent_task_bind)

lemma max_in_flight_after_response:
  "max_in_flight server (after_response f t) = max_in_flight server t"
  by (simp add: after_response_def max_in_flight_task_bind)


section \<open>Properties of apiRequest\<close>

text \<open>\<open>apiRequest\<close> sends one request and settles from its outcome.\<close>

lemma apiRequest_Await:
  "apiRequest rt endpoint options =
     Await [(API_BASE_URL rt @ endpoint, apiRequest_config options)]
       (\<lambda>outcome.
          Done (case apiRequest_try rt
                       (outcome (API_BASE_URL rt @ endpoint, apiRequest_config options)) of
                  Inl error \<Rightarrow> Inl (apiRequest_catch error)
                | Inr d \<Rightarrow> Inr d))"
  by (simp add: apiRequest_def fetch_def Let_def)

lemma run_apiRequest:
  "run server (apiRequest rt endpoint options) =
     (case apiRequest_try rt (server (API_BASE_URL rt @ endpoint, apiRequest_config options)) of
        Inl error \<Rightarrow> Inl (apiRequest_catch error)
      | Inr d \<Rightarrow> Inr d)"
  by (simp add: apiRequest_Await)

lemma requests_sent_apiRequest:
  "requests_sent server (apiRequest rt endpoint options) =
     [(API_BASE_URL rt @ endpoint, apiRequest_config options)]"
  by (simp add: apiRequest_Await)

lemma max_in_flight_apiRequest:
  "max_in_flight server (apiRequest rt endpoint options) = 1"
  by (simp add: apiRequest_Await)

text \<open>
  Whatever the outcome of the request, \<open>apiRequest\<close> resolves to the parsed body or rejects
  with an \<open>ApiError\<close>: no other error leaves it.
\<close>

lemma apiRequest_catch_is_ApiError: "is_ApiError (apiRequest_catch e)"
  by (simp add: apiRequest_catch_def is_ApiError_def)

lemma apiRequest_returns_or_throws_ApiError:
  "(\<exists>d. run server (apiRequest rt endpoint options) = Inr d)
   \<or> (\<exists>m st d. run server (apiRequest rt endpoint options) = Inl (ApiError m st d))"
proof (cases "apiRequest_try rt (server (API_BASE_URL rt @ endpoint, apiRequest_config options))")
  case (Inl e)
  have "is_ApiError (apiRequest_catch e)"
    by (rule apiRequest_catch_is_ApiError)
  then obtain m st d where "apiRequest_catch e = ApiError m st d"
    by (cases "apiRequest_catch e") (simp_all add: is_ApiError_def)
  with Inl show ?thesis
    by (simp add: run_apiRequest)
next
  case (Inr d)
  then show ?thesis
    by (simp add: run_apiRequest)
qed

text \<open>
  A rejection is of one of two kinds: the network error, or an \<open>ApiError\<close> carrying the
  status and the parsed body of a non-2xx response.
\<close>

lemma error_message_Inl: "error_message d st = Inl e \<Longrightarrow> e = TypeError"
  by (auto simp: error_message_def read_prop_def split: json.splits)

lemma apiRequest_error_kinds:
  assumes "run server (apiRequest rt endpoint options) = Inl e"
  shows "e = ApiError ''Network error - please check your connection'' 0 JNull
         \<or> (\<exists>m st d. e = ApiError m st d
               \<and> server (API_BASE_URL rt @ endpoint, apiRequest_config options)
                   = Response st (Some d)
               \<and> \<not> ok st)"
  using assms
  by (auto simp: run_apiRequest apiRequest_try_def apiRequest_catch_def is_ApiError_def
      new_ApiError_def dest!: error_message_Inl
      split: fetch_outcome.splits option.splits if_splits sum.splits exn.splits)

text \<open>A 2xx response with a JSON body resolves to that body.\<close>

lemma apiRequest_success:
  assumes "server (API_BASE_URL rt @ endpoint, apiRequest_config options) = Response st (Some d)"
    and "ok st"
  shows "run server (apiRequest rt endpoint options) = Inr d"
  using assms by (simp add: run_apiRequest apiRequest_try_def)

text \<open>No response, or a body that is not JSON: the network error.\<close>

lemma apiRequest_no_response:
  assumes "server (API_BASE_URL rt @ endpoint, apiRequest_config options) = Rejected
           \<or> (\<exists>st. server (API_BASE_URL rt @ endpoint, apiRequest_config options)
                      = Response st None)"
  shows "run server (apiRequest rt endpoint options) =
           Inl (ApiError ''Network error - please check your connection'' 0 JNull)"
  using assms
  by (auto simp: run_apiRequest apiRequest_try_def apiRequest_catch_def is_ApiError_def)

text \<open>
  A non-2xx response whose body is a JSON value other than \<open>null\<close>, and whose selected
  message converts to a string: the API error with the response status and the body.
\<close>

lemma apiRequest_error_response:
  assumes "server (API_BASE_URL rt @ endpoint, apiRequest_config options) = Response st (Some d)"
    and "\<not> ok st" and "d \<noteq> JNull"
    and "ToString rt (or_else (get_prop d ''detail'')
                        (or_else (get_prop d ''error'') (JStr (''HTTP error '' @ decimal st))))
           = Some m"
  shows "run server (apiRequest rt endpoint options) = Inl (ApiError m st d)"
  using assms
  by (cases d)
    (simp_all add: run_apiRequest apiRequest_try_def error_message_def read_prop_def
      new_ApiError_def apiRequest_catch_def is_ApiError_def)

text \<open>
  C2. The claim that every non-2xx response yields an \<open>ApiError\<close> carrying the response
  status fails on the code: for a response with status 500 whose JSON body is \<open>null\<close>,
  on any endpoint, reading \<open>data.detail\<close> throws inside the \<open>try\<close> block and the handler
  turns it into the network error with status 0.
\<close>

theorem apiRequest_null_error_body:
  "run (answering 500 JNull) (apiRequest rt endpoint options)
     = Inl (ApiError ''Network error - please check your connection'' 0 JNull)"
  by (simp add: run_apiRequest apiRequest_try_def ok_def error_message_def read_prop_def
      apiRequest_catch_def is_ApiError_def answering_def)

text \<open>
  C5, as stated, fails: with the payload \<open>{"detail": "", "error": "boom"}\<close> and status 400
  the \<open>detail\<close> field is present, yet the message is that of the \<open>error\<close> field.
\<close>

theorem apiRequest_message_counterexample:
  "get_prop (JObj [(''detail'', JStr []), (''error'', JStr ''boom'')]) ''detail'' = Some (JStr [])
   \<and> run (answering 400 (JObj [(''detail'', JStr []), (''error'', JStr ''boom'')]))
        (apiRequest local_runtime ''/products'' no_init)
     \<noteq> Inl (ApiError [] 400 (JObj [(''detail'', JStr []), (''error'', JStr ''boom'')]))
   \<and> run (answering 400 (JObj [(''detail'', JStr []), (''error'', JStr ''boom'')]))
        (apiRequest local_runtime ''/products'' no_init)
     = Inl (ApiError ''boom'' 400 (JObj [(''detail'', JStr []), (''error'', JStr ''boom'')]))"
  by (simp add: run_apiRequest apiRequest_try_def ok_def error_message_def read_prop_def
      apiRequest_catch_def is_ApiError_def answering_def or_else_def new_ApiError_def)

text \<open>
  The string conversion throws exactly on the values that hide \<open>toString\<close>.
\<close>

lemma join_strings_None: "join_strings xs = None \<longleftrightarrow> None \<in> set xs"
  by (induction xs rule: join_strings.induct) (auto split: option.splits)

lemma ToString_None_iff: "ToString rt v = None \<longleftrightarrow> hides_toString v"
proof (induction v)
  case (JArr xs)
  have "ToString rt (JArr xs) = None \<longleftrightarrow> (\<exists>x \<in> set xs. x \<noteq> JNull \<and> ToString rt x = None)"
  proof -
    have "None \<in> (\<lambda>x. if x = JNull then Some [] else ToString rt x) ` set xs
            \<longleftrightarrow> (\<exists>x \<in> set xs. x \<noteq> JNull \<and> ToString rt x = None)"
      unfolding image_iff by (metis option.distinct(1))
    then show ?thesis
      by (simp only: ToString.simps join_strings_None set_map)
  qed
  also have "\<dots> \<longleftrightarrow> (\<exists>x \<in> set xs. hides_toString x)"
  proof -
    have "x \<noteq> JNull" if "hides_toString x" for x
      using that by auto
    with JArr show ?thesis
      by blast
  qed
  finally show ?case
    by (simp add: list_ex_iff)
qed simp_all

text \<open>
  C5, amended. For a non-2xx response whose payload is not \<open>null\<close>, on every endpoint and
  with every options argument: if the payload's \<open>detail\<close> field is truthy and its string
  conversion succeeds, the \<open>ApiError\<close> carries the status and the payload and has that
  conversion as message; if \<open>detail\<close> is absent or falsy and the \<open>error\<close> field is truthy
  and its string conversion succeeds, the message is the conversion of \<open>error\<close>; if
  both fields are absent or falsy, the message is \<open>HTTP error {status}\<close>. A non-empty
  string in the selected field is the message itself. The conversion of a value succeeds
  exactly when the value does not hide \<open>toString\<close>; what is thrown when it fails is not
  part of the statement.
\<close>

theorem apiRequest_error_message:
  assumes "server (API_BASE_URL rt @ endpoint, apiRequest_config options)
             = Response st (Some payload)"
    and "\<not> ok st" and "payload \<noteq> JNull"
  shows "(\<forall>d m. get_prop payload ''detail'' = Some d \<and> truthy d \<and> ToString rt d = Some m \<longrightarrow>
            run server (apiRequest rt endpoint options) = Inl (ApiError m st payload))
       \<and> (\<forall>e m. falsy (get_prop payload ''detail'') \<and> get_prop payload ''error'' = Some e
                 \<and> truthy e \<and> ToString rt e = Some m \<longrightarrow>
            run server (apiRequest rt endpoint options) = Inl (ApiError m st payload))
       \<and> (falsy (get_prop payload ''detail'') \<and> falsy (get_prop payload ''error'') \<longrightarrow>
            run server (apiRequest rt endpoint options)
              = Inl (ApiError (''HTTP error '' @ decimal st) st payload))
       \<and> (\<forall>s. get_prop payload ''detail'' = Some (JStr s) \<and> s \<noteq> [] \<longrightarrow>
            run server (apiRequest rt endpoint options) = Inl (ApiError s st payload))
       \<and> (\<forall>s. falsy (get_prop payload ''detail'') \<and> get_prop payload ''error'' = Some (JStr s)
               \<and> s \<noteq> [] \<longrightarrow>
            run server (apiRequest rt endpoint options) = Inl (ApiError s st payload))
       \<and> (\<forall>v. (ToString rt v = None) = hides_toString v)"
proof -
  have r: "run server (apiRequest rt endpoint options) = Inl (ApiError m st payload)"
    if "ToString rt (or_else (get_prop payload ''detail'')
                       (or_else (get_prop payload ''error'')
                          (JStr (''HTTP error '' @ decimal st)))) = Some m" for m
    using apiRequest_error_response [of server rt endpoint options st payload m] assms that
    by simp
  show ?thesis
    by (auto intro!: r simp: or_else_def falsy_def ToString_None_iff split: option.splits)
qed

theorem apiRequest_error_message_witness:
  "\<not> ok 404
   \<and> run (answering 404 (JObj [(''detail'', JStr ''Not found'')]))
        (apiRequest local_runtime ''/products/7'' no_init)
     = Inl (ApiError ''Not found'' 404 (JObj [(''detail'', JStr ''Not found'')]))
   \<and> run (answering 503 (JObj [(''error'', JStr ''down'')]))
        (apiRequest local_runtime ''/categories'' no_init)
     = Inl (ApiError ''down'' 503 (JObj [(''error'', JStr ''down'')]))
   \<and> run (answering 500 (JArr []))
        (apiRequest local_runtime ''/categories'' no_init)
     = Inl (ApiError ''HTTP error 500'' 500 (JArr []))"
proof -
  have d: "decimal 500 = ''500''"
    by code_simp
  have a: "\<not> ok 404" "\<not> ok 503" "\<not> ok 500"
    by (simp_all add: ok_def)
  show ?thesis
    using apiRequest_error_message
            [of "answering 404 (JObj [(''detail'', JStr ''Not found'')])"
                local_runtime "''/products/7''" no_init 404
                "JObj [(''detail'', JStr ''Not found'')]"]
          apiRequest_error_message
            [of "answering 503 (JObj [(''error'', JStr ''down'')])"
                local_runtime "''/categories''" no_init 503
                "JObj [(''error'', JStr ''down'')]"]
          apiRequest_error_message
            [of "answering 500 (JArr [])" local_runtime "''/categories''" no_init 500 "JArr []"]
          a d
    by (simp add: answering_def falsy_def)
qed



section \<open>Properties of the exported operations\<close>

text \<open>
  C3. \<open>getRecommendations\<close> sends exactly one request: a \<open>POST\<close> to the recommendations
  endpoint whose body is the serialisation of the object with the two keys
  \<open>preferences\<close> and \<open>browsing_history\<close>, bound to its two arguments. When the backend
  answers it with a 2xx status and a JSON body, the operation returns that body unchanged.
\<close>

theorem getRecommendations_request_and_result:
  "requests_sent server (getRecommendations rt preferences browsingHistory) =
     [(API_BASE_URL rt @ ''/recommendations'',
       \<lparr>method' = Some ''POST'',
        headers = Some [(''Content-Type'', ''application/json'')],
        body = Some (JSON_stringify rt
                       (JObj [(''preferences'', preferences),
                              (''browsing_history'', browsingHistory)]))\<rparr>)]
   \<and> (\<forall>st response.
          server (API_BASE_URL rt @ ''/recommendations'',
                  \<lparr>method' = Some ''POST'',
                   headers = Some [(''Content-Type'', ''application/json'')],
                   body = Some (JSON_stringify rt
                                  (JObj [(''preferences'', preferences),
                                         (''browsing_history'', browsingHistory)]))\<rparr>)
            = Response st (Some response) \<and> ok st \<longrightarrow>
          run server (getRecommendations rt preferences browsingHistory) = Inr response)"
  by (simp add: getRecommendations_def requests_sent_after_response requests_sent_apiRequest
      run_after_response run_apiRequest apiRequest_config_def apiRequest_try_def)

theorem getRecommendations_request_and_result_witness:
  "ok 200
   \<and> requests_sent (answering 200 (JObj [(''recommendations'', JArr [])]))
        (getRecommendations local_runtime (JObj [(''minRating'', JNum 4)]) (JArr [JNum 7, JNum 3]))
     = [(''http://localhost:5000/api/recommendations'',
         \<lparr>method' = Some ''POST'',
          headers = Some [(''Content-Type'', ''application/json'')],
          body = Some (''{'' @ [CHR 0x22] @ ''preferences'' @ [CHR 0x22] @ '':{''
                        @ [CHR 0x22] @ ''minRating'' @ [CHR 0x22] @ '':4},''
                        @ [CHR 0x22] @ ''browsing_history'' @ [CHR 0x22] @ '':[7,3]}'')\<rparr>)]
   \<and> run (answering 200 (JObj [(''recommendations'', JArr [])]))
        (getRecommendations local_runtime (JObj [(''minRating'', JNum 4)]) (JArr [JNum 7, JNum 3]))
     = Inr (JObj [(''recommendations'', JArr [])])"
proof -
  have a: "ok 200"
    by (simp add: ok_def)
  have u: "API_BASE_URL local_runtime = ''http://localhost:5000/api''"
    by (simp add: API_BASE_URL_def local_runtime_def)
  have b: "JSON_stringify local_runtime
             (JObj [(''preferences'', JObj [(''minRating'', JNum 4)]),
                    (''browsing_history'', JArr [JNum 7, JNum 3])])
           = ''{'' @ [CHR 0x22] @ ''preferences'' @ [CHR 0x22] @ '':{''
               @ [CHR 0x22] @ ''minRating'' @ [CHR 0x22] @ '':4},''
               @ [CHR 0x22] @ ''browsing_history'' @ [CHR 0x22] @ '':[7,3]}''"
    by code_simp
  show ?thesis
    using getRecommendations_request_and_result
            [of "answering 200 (JObj [(''recommendations'', JArr [])])" local_runtime
                "JObj [(''minRating'', JNum 4)]" "JArr [JNum 7, JNum 3]"] a u b
    by (simp add: answering_def)
qed

lemma requests_sent_healthCheck:
  "requests_sent server healthCheck = [(''http://localhost:5000/health'', no_init)]"
  by (simp add: healthCheck_def fetch_def)

lemma run_healthCheck:
  "run server healthCheck =
     (case server (''http://localhost:5000/health'', no_init) of
        Rejected \<Rightarrow> Inl TypeError
      | Response st parsed \<Rightarrow> (case parsed of None \<Rightarrow> Inl SyntaxError | Some d \<Rightarrow> Inr d))"
  by (simp add: healthCheck_def fetch_def)

lemma max_in_flight_healthCheck: "max_in_flight server healthCheck = 1"
  by (simp add: healthCheck_def fetch_def)

text \<open>Every request of every other operation goes to a URL that starts with the base URL.\<close>

lemma other_operations_base_url:
  assumes "t \<in> set (other_operations rt productId query limit fs preferences browsingHistory)"
    and "req \<in> set (requests_sent server t)"
  shows "prefix (API_BASE_URL rt) (fst req)"
  using assms
  by (auto simp: other_operations_def fetchProducts_def fetchCategories_def fetchProductById_def
      searchProducts_def filterProducts_def getRecommendations_def Let_def
      requests_sent_after_response requests_sent_apiRequest split: option.splits)

lemma other_operations_in_flight:
  assumes "t \<in> set (other_operations rt productId query limit fs preferences browsingHistory)"
  shows "max_in_flight server t \<le> 1"
  using assms
  by (auto simp: other_operations_def fetchProducts_def fetchCategories_def fetchProductById_def
      searchProducts_def filterProducts_def getRecommendations_def Let_def
      max_in_flight_after_response max_in_flight_apiRequest split: option.splits)

text \<open>
  C6, as stated, fails: the other operations use the prefix \<open>/api\<close> only by default.
  With \<open>REACT_APP_API_URL\<close> set to \<open>http://localhost:5000\<close>, \<open>fetchProducts\<close> sends its request
  to a URL in which \<open>/api\<close> does not occur, and the health URL lies under the base URL
  that the other operations use.
\<close>

theorem healthCheck_prefix_counterexample:
  "requests_sent healthy_server (fetchProducts root_runtime)
     = [(''http://localhost:5000/products'', apiRequest_config no_init)]
   \<and> \<not> sublist ''/api'' ''http://localhost:5000/products''
   \<and> requests_sent healthy_server healthCheck = [(''http://localhost:5000/health'', no_init)]
   \<and> prefix (API_BASE_URL root_runtime) ''http://localhost:5000/health''"
proof -
  have base: "API_BASE_URL root_runtime = ''http://localhost:5000''"
    by (simp add: API_BASE_URL_def root_runtime_def)
  have "\<not> sublist ''/api'' ''http://localhost:5000/products''"
    by code_simp
  then show ?thesis
    by (simp add: base fetchProducts_def requests_sent_after_response requests_sent_apiRequest
        requests_sent_healthCheck)
qed

text \<open>
  C6, amended. \<open>healthCheck\<close> sends exactly one request, a \<open>GET\<close> to the fixed URL
  \<open>http://localhost:5000/health\<close>, the path \<open>/health\<close> directly under that origin, and
  returns the parsed JSON body of the response. Every request of every other operation
  goes to a URL under the base URL. The base URL is \<open>REACT_APP_API_URL\<close> when that is set
  and not empty; when it is unset or empty, the base URL is the same origin followed by
  \<open>/api\<close>, and the health URL is not under it.
\<close>

theorem healthCheck_at_server_root:
  "requests_sent server healthCheck = [(''http://localhost:5000'' @ ''/health'', no_init)]
   \<and> request_method (''http://localhost:5000'' @ ''/health'', no_init) = ''GET''
   \<and> (\<forall>st d. server (''http://localhost:5000'' @ ''/health'', no_init) = Response st (Some d) \<longrightarrow>
         run server healthCheck = Inr d)
   \<and> (\<forall>t \<in> set (other_operations rt productId query limit fs preferences browsingHistory).
         \<forall>req \<in> set (requests_sent server t). prefix (API_BASE_URL rt) (fst req))
   \<and> (\<forall>u. REACT_APP_API_URL rt = Some u \<and> u \<noteq> [] \<longrightarrow> API_BASE_URL rt = u)
   \<and> (REACT_APP_API_URL rt = None \<or> REACT_APP_API_URL rt = Some [] \<longrightarrow>
         API_BASE_URL rt = ''http://localhost:5000'' @ ''/api''
         \<and> \<not> prefix (API_BASE_URL rt) (''http://localhost:5000'' @ ''/health''))"
proof -
  have "\<forall>t \<in> set (other_operations rt productId query limit fs preferences browsingHistory).
          \<forall>req \<in> set (requests_sent server t). prefix (API_BASE_URL rt) (fst req)"
    using other_operations_base_url by blast
  moreover have "\<forall>u. REACT_APP_API_URL rt = Some u \<and> u \<noteq> [] \<longrightarrow> API_BASE_URL rt = u"
    by (simp add: API_BASE_URL_def)
  moreover have "REACT_APP_API_URL rt = None \<or> REACT_APP_API_URL rt = Some [] \<longrightarrow>
                   API_BASE_URL rt = ''http://localhost:5000'' @ ''/api''
                   \<and> \<not> prefix (API_BASE_URL rt) (''http://localhost:5000'' @ ''/health'')"
    by (auto simp: API_BASE_URL_def)
  ultimately show ?thesis
    by (simp add: requests_sent_healthCheck run_healthCheck request_method_def no_init_def)
qed

theorem healthCheck_at_server_root_witness:
  "REACT_APP_API_URL local_runtime = None
   \<and> healthy_server (''http://localhost:5000/health'', no_init)
       = Response 200 (Some (JArr [JStr ''item'']))
   \<and> run healthy_server healthCheck = Inr (JArr [JStr ''item''])
   \<and> fetchProducts local_runtime \<in> set (other_operations local_runtime JNull [] None JNull JNull JNull)
   \<and> (''http://localhost:5000/api/products'', apiRequest_config no_init)
       \<in> set (requests_sent healthy_server (fetchProducts local_runtime))
   \<and> prefix (API_BASE_URL local_runtime) ''http://localhost:5000/api/products''
   \<and> \<not> prefix (API_BASE_URL local_runtime) ''http://localhost:5000/health''
   \<and> REACT_APP_API_URL root_runtime = Some ''http://localhost:5000''
   \<and> API_BASE_URL root_runtime = ''http://localhost:5000''"
proof -
  note t = healthCheck_at_server_root
             [of healthy_server local_runtime JNull "[]" None JNull JNull JNull]
  note t' = healthCheck_at_server_root
              [of healthy_server root_runtime JNull "[]" None JNull JNull JNull]
  have env': "REACT_APP_API_URL root_runtime = Some ''http://localhost:5000''"
    by (simp add: root_runtime_def)
  from t' env' have base': "API_BASE_URL root_runtime = ''http://localhost:5000''"
    by simp
  have env: "REACT_APP_API_URL local_runtime = None"
    by (simp add: local_runtime_def)
  have answer: "healthy_server (''http://localhost:5000/health'', no_init)
                  = Response 200 (Some (JArr [JStr ''item'']))"
    by (simp add: healthy_server_def answering_def)
  have op: "fetchProducts local_runtime
              \<in> set (other_operations local_runtime JNull [] None JNull JNull JNull)"
    by (simp add: other_operations_def)
  have sent: "(''http://localhost:5000/api/products'', apiRequest_config no_init)
                \<in> set (requests_sent healthy_server (fetchProducts local_runtime))"
    by (simp add: fetchProducts_def requests_sent_after_response requests_sent_apiRequest
        API_BASE_URL_def local_runtime_def)
  from t answer have "run healthy_server healthCheck = Inr (JArr [JStr ''item''])"
    by simp
  moreover from t op sent
  have "prefix (API_BASE_URL local_runtime) ''http://localhost:5000/api/products''"
    by fastforce
  moreover from t env
  have "\<not> prefix (API_BASE_URL local_runtime) ''http://localhost:5000/health''"
    by simp
  ultimately show ?thesis
    using env answer op sent env' base' by blast
qed


section \<open>Requests in flight\<close>

lemma max_in_flight_loadInitialData:
  "max_in_flight server (loadInitialData rt st) =
     (case run server healthCheck of Inl e \<Rightarrow> 1 | Inr h \<Rightarrow> 2)"
  by (simp add: loadInitialData_def Let_def healthCheck_def fetch_def fetchProducts_def
      fetchCategories_def after_response_def catch_empty_def task_map_def apiRequest_Await
      split: sum.splits fetch_outcome.splits option.splits prod.splits)

lemma requests_sent_loadInitialData:
  "requests_sent server (loadInitialData rt st) =
     (case run server healthCheck of
        Inl e \<Rightarrow> [(''http://localhost:5000/health'', no_init)]
      | Inr h \<Rightarrow> [(''http://localhost:5000/health'', no_init),
                  (API_BASE_URL rt @ ''/products'', apiRequest_config no_init),
                  (API_BASE_URL rt @ ''/categories'', apiRequest_config no_init)])"
  by (simp add: loadInitialData_def Let_def healthCheck_def fetch_def fetchProducts_def
      fetchCategories_def after_response_def catch_empty_def task_map_def apiRequest_Await
      split: sum.splits fetch_outcome.splits option.splits prod.splits)

text \<open>
  After the health check has succeeded, \<open>loadInitialData\<close> is suspended with the products
  request and the categories request both in flight.
\<close>

lemma loadInitialData_structure:
  "\<exists>k. loadInitialData rt st = Await [(''http://localhost:5000/health'', no_init)] k
       \<and> (\<forall>server h. run server healthCheck = Inr h \<longrightarrow>
            (\<exists>k'. k server =
                     Await [(API_BASE_URL rt @ ''/products'', apiRequest_config no_init),
                            (API_BASE_URL rt @ ''/categories'', apiRequest_config no_init)] k'))"
  by (simp add: loadInitialData_def Let_def healthCheck_def fetch_def fetchProducts_def
      fetchCategories_def after_response_def catch_empty_def task_map_def apiRequest_Await
      split: sum.splits fetch_outcome.splits option.splits prod.splits)

text \<open>
  C7, as stated, fails: against a backend that answers every request, the initial load
  has two requests in flight at the same time.
\<close>

theorem loadInitialData_two_in_flight:
  "\<not> max_in_flight healthy_server (loadInitialData local_runtime initial_app_state) \<le> 1"
  by (simp add: max_in_flight_loadInitialData run_healthCheck healthy_server_def answering_def)

text \<open>
  C7, amended. The initial load never has more than two requests in flight: the health
  check alone and then, if it returned, the products and the categories request
  together; if the health check failed nothing else is sent. Every other operation of
  the client, the recommendations request among them, and the health check itself have
  one request in flight at most.
\<close>

theorem requests_in_flight_per_action:
  "max_in_flight server (loadInitialData rt st) \<le> 2
   \<and> (\<forall>h. run server healthCheck = Inr h \<longrightarrow>
         max_in_flight server (loadInitialData rt st) = 2
         \<and> requests_sent server (loadInitialData rt st) =
             [(''http://localhost:5000/health'', no_init),
              (API_BASE_URL rt @ ''/products'', apiRequest_config no_init),
              (API_BASE_URL rt @ ''/categories'', apiRequest_config no_init)])
   \<and> (\<forall>e. run server healthCheck = Inl e \<longrightarrow>
         max_in_flight server (loadInitialData rt st) = 1
         \<and> requests_sent server (loadInitialData rt st) =
             [(''http://localhost:5000/health'', no_init)])
   \<and> max_in_flight server healthCheck = 1
   \<and> (\<forall>t \<in> set (other_operations rt productId query limit fs preferences browsingHistory).
         max_in_flight server t \<le> 1)"
proof -
  have "max_in_flight server (loadInitialData rt st) \<le> 2"
    by (simp add: max_in_flight_loadInitialData split: sum.splits)
  moreover have "\<forall>t \<in> set (other_operations rt productId query limit fs preferences
                              browsingHistory). max_in_flight server t \<le> 1"
    using other_operations_in_flight by blast
  ultimately show ?thesis
    by (simp add: max_in_flight_loadInitialData requests_sent_loadInitialData
        max_in_flight_healthCheck)
qed

theorem requests_in_flight_per_action_witness:
  "run healthy_server healthCheck = Inr (JArr [JStr ''item''])
   \<and> max_in_flight healthy_server (loadInitialData local_runtime initial_app_state) = 2
   \<and> requests_sent healthy_server (loadInitialData local_runtime initial_app_state) =
       [(''http://localhost:5000/health'', no_init),
        (''http://localhost:5000/api/products'', apiRequest_config no_init),
        (''http://localhost:5000/api/categories'', apiRequest_config no_init)]
   \<and> getRecommendations local_runtime JNull JNull
       \<in> set (other_operations local_runtime JNull [] None JNull JNull JNull)
   \<and> max_in_flight healthy_server (getRecommendations local_runtime JNull JNull) \<le> 1"
proof -
  note t = requests_in_flight_per_action
             [of healthy_server local_runtime initial_app_state JNull "[]" None JNull JNull JNull]
  have health: "run healthy_server healthCheck = Inr (JArr [JStr ''item''])"
    by (simp add: run_healthCheck healthy_server_def answering_def)
  have u: "API_BASE_URL local_runtime = ''http://localhost:5000/api''"
    by (simp add: API_BASE_URL_def local_runtime_def)
  have op: "getRecommendations local_runtime JNull JNull
              \<in> set (other_operations local_runtime JNull [] None JNull JNull JNull)"
    by (simp add: other_operations_def)
  from t health u
  have "max_in_flight healthy_server (loadInitialData local_runtime initial_app_state) = 2
        \<and> requests_sent healthy_server (loadInitialData local_runtime initial_app_state) =
            [(''http://localhost:5000/health'', no_init),
             (''http://localhost:5000/api/products'', apiRequest_config no_init),
             (''http://localhost:5000/api/categories'', apiRequest_config no_init)]"
    by simp
  moreover from t op
  have "max_in_flight healthy_server (getRecommendations local_runtime JNull JNull) \<le> 1"
    by blast
  ultimately show ?thesis
    using health op by blast
qed

end
